theory Spec2Isabelle
  imports Complex_Main
begin

section \<open>Python values and library behaviour used by the handler\<close>

text \<open>
  The handler of \<^verbatim>\<open>lambda_function.py\<close> works on strings, on \<^verbatim>\<open>None\<close> and on
  floats. A float is modelled by its class and exact value: the two zeros are kept
  apart (their \<^verbatim>\<open>repr\<close> differs), a not-a-number is a value of its own, and every
  comparison with it is false, as IEEE 754 and Python have it.
\<close>

datatype pyfloat = NaN | NegInf | NegZero | Finite real | PosInf

text \<open>\<^verbatim>\<open>x <= 0\<close> on a float: false for a not-a-number.\<close>

fun float_le_zero :: "pyfloat \<Rightarrow> bool" where
  "float_le_zero NaN = False"
| "float_le_zero NegInf = True"
| "float_le_zero NegZero = True"
| "float_le_zero (Finite x) = (x \<le> 0)"
| "float_le_zero PosInf = False"

text \<open>\<^verbatim>\<open>x > 0\<close> on a float: false for a not-a-number as well.\<close>

fun float_gt_zero :: "pyfloat \<Rightarrow> bool" where
  "float_gt_zero NaN = False"
| "float_gt_zero NegInf = False"
| "float_gt_zero NegZero = False"
| "float_gt_zero (Finite x) = (0 < x)"
| "float_gt_zero PosInf = True"

text \<open>\<^verbatim>\<open>x == 0\<close> on a float: both zeros.\<close>

fun float_is_zero :: "pyfloat \<Rightarrow> bool" where
  "float_is_zero NegZero = True"
| "float_is_zero (Finite x) = (x = 0)"
| "float_is_zero _ = False"

text \<open>The values that reach \<^verbatim>\<open>float(n)\<close>: a slot value or the oracle's price field.\<close>

datatype pyval = PyNone | PyStr string | PyFloat pyfloat

text \<open>
  The exceptions the handler can end with. \<open>OracleError\<close> stands for whatever the
  HTTP request, the JSON decoding or the indexing of the price oracle's answer raises.
  \<open>NoneSlotKey\<close> is no exception of Python: it marks the one state the slot mapping
  of the model cannot hold, the assignment \<^verbatim>\<open>slots[None] = None\<close>, which the handler
  never reaches (lemma \<open>validate_data_invalid\<close>).
\<close>

datatype py_error =
    KeyError string
  | TypeError
  | ValueError
  | ZeroDivisionError
  | OracleError
  | Exception string
  | NoneSlotKey

text \<open>A calendar date: year, month, day.\<close>

type_synonym date = "nat \<times> nat \<times> nat"

text \<open>
  What the handler calls and does not define: the float arithmetic of the interpreter,
  \<^verbatim>\<open>datetime.strptime\<close>, \<^verbatim>\<open>relativedelta\<close> against the clock, and the price oracle.
  Every theorem below holds for every such platform.
  \<^item> \<open>float_of_str s\<close>: \<^verbatim>\<open>float(s)\<close> on a string, \<open>None\<close> when it raises \<^verbatim>\<open>ValueError\<close>;
  \<^item> \<open>float_div a b\<close>: the quotient \<^verbatim>\<open>a / b\<close> for a divisor that is not zero;
  \<^item> \<open>float_round x n\<close>: \<^verbatim>\<open>round(x, n)\<close>;
  \<^item> \<open>float_str x\<close>: the text \<^verbatim>\<open>"{}".format(x)\<close>;
  \<^item> \<open>strptime_ymd s\<close>: \<^verbatim>\<open>datetime.strptime(s, "%Y-%m-%d")\<close>, \<open>None\<close> when it raises
    \<^verbatim>\<open>ValueError\<close>;
  \<^item> \<open>age_years d\<close>: \<^verbatim>\<open>relativedelta(datetime.now(), d).years\<close>;
  \<^item> \<open>price_field\<close>: the value of
    \<^verbatim>\<open>requests.get(url).json()["data"]["1"]["quotes"]["CAD"]["price"]\<close>, or the exception.
\<close>

record platform =
  float_of_str :: "string \<Rightarrow> pyfloat option"
  float_div :: "pyfloat \<Rightarrow> pyfloat \<Rightarrow> pyfloat"
  float_round :: "pyfloat \<Rightarrow> nat \<Rightarrow> pyfloat"
  float_str :: "pyfloat \<Rightarrow> string"
  strptime_ymd :: "string \<Rightarrow> date option"
  age_years :: "date \<Rightarrow> int"
  price_field :: "py_error + pyval"

text \<open>The builtin \<^verbatim>\<open>float(n)\<close>: \<^verbatim>\<open>TypeError\<close> on \<^verbatim>\<open>None\<close>, \<^verbatim>\<open>ValueError\<close> on a
  string that is no number.\<close>

fun py_float :: "platform \<Rightarrow> pyval \<Rightarrow> py_error + pyfloat" where
  "py_float P PyNone = Inl TypeError"
| "py_float P (PyStr s) =
     (case float_of_str P s of None \<Rightarrow> Inl ValueError | Some x \<Rightarrow> Inr x)"
| "py_float P (PyFloat x) = Inr x"

text \<open>\<^verbatim>\<open>a / b\<close> on floats: a zero divisor raises.\<close>

definition py_truediv :: "platform \<Rightarrow> pyfloat \<Rightarrow> pyfloat \<Rightarrow> py_error + pyfloat" where
  "py_truediv P a b =
     (if float_is_zero b then Inl ZeroDivisionError else Inr (float_div P a b))"

text \<open>\<^verbatim>\<open>d[k]\<close> on a dictionary: a missing key raises.\<close>

definition py_getitem :: "(string \<rightharpoonup> 'v) \<Rightarrow> string \<Rightarrow> py_error + 'v" where
  "py_getitem d k = (case d k of None \<Rightarrow> Inl (KeyError k) | Some v \<Rightarrow> Inr v)"

text \<open>A slot value as a Python value, and as \<^verbatim>\<open>format\<close> prints it.\<close>

fun slot_val :: "string option \<Rightarrow> pyval" where
  "slot_val None = PyNone"
| "slot_val (Some s) = PyStr s"

fun slot_str :: "string option \<Rightarrow> string" where
  "slot_str None = ''None''"
| "slot_str (Some s) = s"

section \<open>Functionality helper functions\<close>

text \<open>\<^verbatim>\<open>parse_float\<close>: only \<^verbatim>\<open>ValueError\<close> is caught and becomes \<^verbatim>\<open>float("nan")\<close>.\<close>

definition parse_float :: "platform \<Rightarrow> pyval \<Rightarrow> py_error + pyfloat" where
  "parse_float P n =
     (case py_float P n of
        Inl ValueError \<Rightarrow> Inr NaN
      | Inl e \<Rightarrow> Inl e
      | Inr x \<Rightarrow> Inr x)"

definition get_btcprice :: "platform \<Rightarrow> py_error + pyfloat" where
  "get_btcprice P =
     (case price_field P of
        Inl e \<Rightarrow> Inl e
      | Inr v \<Rightarrow> parse_float P v)"

record lex_message =
  contentType :: string
  content :: string

text \<open>The validation dictionary: \<open>message = None\<close> is the dictionary without the key
  \<^verbatim>\<open>"message"\<close>; \<open>violatedSlot = None\<close> is the key bound to \<^verbatim>\<open>None\<close>.\<close>

record validation_result =
  isValid :: bool
  violatedSlot :: "string option"
  message :: "lex_message option"

definition build_validation_result ::
  "bool \<Rightarrow> string option \<Rightarrow> string option \<Rightarrow> validation_result" where
  "build_validation_result is_valid violated_slot message_content =
     (case message_content of
        None \<Rightarrow> \<lparr>isValid = is_valid, violatedSlot = violated_slot, message = None\<rparr>
      | Some c \<Rightarrow>
          \<lparr>isValid = is_valid, violatedSlot = violated_slot,
           message = Some \<lparr>contentType = ''PlainText'', content = c\<rparr>\<rparr>)"

definition age_message :: string where
  "age_message =
     ''You should be at least 18 years old to use this service, '' @
     ''please provide a different date of birth.''"

definition amount_message :: string where
  "amount_message =
     ''The amount to convert should be greater than zero, '' @
     ''please provide a correct amount in dollars to convert.''"

section \<open>The intent request and the dialogue responses\<close>

type_synonym slots = "string \<rightharpoonup> string option"

record intent_request =
  currentIntent_name :: string
  currentIntent_slots :: slots
  invocationSource :: string
  sessionAttributes :: "string \<rightharpoonup> string"

text \<open>\<^verbatim>\<open>validate_data\<close>: the birth date first, then the amount. The request is a
  parameter the function never reads.\<close>

definition validate_data ::
  "platform \<Rightarrow> string option \<Rightarrow> string option \<Rightarrow> intent_request \<Rightarrow>
   py_error + validation_result" where
  "validate_data P birthday cad_amount intent_request =
     (let amount_check =
        (case cad_amount of
           None \<Rightarrow> Inr (build_validation_result True None None)
         | Some s \<Rightarrow>
             (case parse_float P (PyStr s) of
                Inl e \<Rightarrow> Inl e
              | Inr x \<Rightarrow>
                  if float_le_zero x
                  then Inr (build_validation_result False (Some ''cadAmount'')
                              (Some amount_message))
                  else Inr (build_validation_result True None None)))
      in case birthday of
           None \<Rightarrow> amount_check
         | Some b \<Rightarrow>
             (case strptime_ymd P b of
                None \<Rightarrow> Inl ValueError
              | Some birth_date \<Rightarrow>
                  if age_years P birth_date < 18
                  then Inr (build_validation_result False (Some ''birthday'')
                              (Some age_message))
                  else amount_check))"

section \<open>Dialog actions helper functions\<close>

definition get_slots :: "intent_request \<Rightarrow> slots" where
  "get_slots intent_request = currentIntent_slots intent_request"

datatype dialog_action =
    ElicitSlot string slots string lex_message
  | Delegate slots
  | Close string lex_message

record response =
  resp_sessionAttributes :: "string \<rightharpoonup> string"
  dialogAction :: dialog_action

definition elicit_slot ::
  "(string \<rightharpoonup> string) \<Rightarrow> string \<Rightarrow> slots \<Rightarrow> string \<Rightarrow> lex_message \<Rightarrow> response" where
  "elicit_slot session_attributes intent_name slots slot_to_elicit msg =
     \<lparr>resp_sessionAttributes = session_attributes,
      dialogAction = ElicitSlot intent_name slots slot_to_elicit msg\<rparr>"

definition delegate :: "(string \<rightharpoonup> string) \<Rightarrow> slots \<Rightarrow> response" where
  "delegate session_attributes slots =
     \<lparr>resp_sessionAttributes = session_attributes, dialogAction = Delegate slots\<rparr>"

definition close :: "(string \<rightharpoonup> string) \<Rightarrow> string \<Rightarrow> lex_message \<Rightarrow> response" where
  "close session_attributes fulfillment_state msg =
     \<lparr>resp_sessionAttributes = session_attributes,
      dialogAction = Close fulfillment_state msg\<rparr>"

section \<open>Intents handlers\<close>

text \<open>The text of the fulfilment message: the template of the source with its two
  line breaks, each followed by twelve spaces.\<close>

definition fulfilled_text :: "string \<Rightarrow> string \<Rightarrow> string" where
  "fulfilled_text btc_value cad_amount =
     ''Thank you for your information;'' @ [CHR 0x0A] @
     ''            you can get '' @ btc_value @
     '' Bitcoins for your $'' @ cad_amount @ '' dollars.'' @ [CHR 0x0A] @
     ''            ''"

text \<open>
  \<^verbatim>\<open>convert_cad\<close>. The request is a mutable dictionary and \<^verbatim>\<open>slots\<close> is the very
  dictionary \<^verbatim>\<open>get_slots\<close> returns, so cleaning the invalid slot writes into the
  request: the function returns the request as it is left, and the outcome.
\<close>

definition convert_cad ::
  "platform \<Rightarrow> intent_request \<Rightarrow> intent_request \<times> (py_error + response)" where
  "convert_cad P intent_request =
     (case py_getitem (get_slots intent_request) ''birthday'' of
        Inl e \<Rightarrow> (intent_request, Inl e)
      | Inr birthday \<Rightarrow>
     (case py_getitem (get_slots intent_request) ''cadAmount'' of
        Inl e \<Rightarrow> (intent_request, Inl e)
      | Inr cad_amount \<Rightarrow>
     if invocationSource intent_request = ''DialogCodeHook'' then
       (case validate_data P birthday cad_amount intent_request of
          Inl e \<Rightarrow> (intent_request, Inl e)
        | Inr validation_result \<Rightarrow>
            if \<not> isValid validation_result then
              (case violatedSlot validation_result of
                 None \<Rightarrow> (intent_request, Inl NoneSlotKey)
               | Some violated \<Rightarrow>
                   (let cleaned = intent_request
                          \<lparr>currentIntent_slots := (get_slots intent_request)(violated \<mapsto> None)\<rparr>
                    in case message validation_result of
                         None \<Rightarrow> (cleaned, Inl (KeyError ''message''))
                       | Some msg \<Rightarrow>
                           (cleaned,
                            Inr (elicit_slot (sessionAttributes cleaned)
                                   (currentIntent_name cleaned) (get_slots cleaned)
                                   violated msg))))
            else
              (intent_request,
               Inr (delegate (sessionAttributes intent_request) (get_slots intent_request))))
     else
       (case parse_float P (slot_val cad_amount) of
          Inl e \<Rightarrow> (intent_request, Inl e)
        | Inr amount \<Rightarrow>
       (case get_btcprice P of
          Inl e \<Rightarrow> (intent_request, Inl e)
        | Inr price \<Rightarrow>
       (case py_truediv P amount price of
          Inl e \<Rightarrow> (intent_request, Inl e)
        | Inr ratio \<Rightarrow>
            (let btc_value = float_round P ratio 4
             in (intent_request,
                 Inr (close (sessionAttributes intent_request) ''Fulfilled''
                        \<lparr>contentType = ''PlainText'',
                         content = fulfilled_text (float_str P btc_value)
                                     (slot_str cad_amount)\<rparr>))))))))"

section \<open>Intents dispatcher and main handler\<close>

definition dispatch ::
  "platform \<Rightarrow> intent_request \<Rightarrow> intent_request \<times> (py_error + response)" where
  "dispatch P intent_request =
     (let intent_name = currentIntent_name intent_request
      in if intent_name = ''convertCAD'' then convert_cad P intent_request
         else (intent_request,
               Inl (Exception (''Intent with name '' @ intent_name @ '' not supported''))))"

definition lambda_handler ::
  "platform \<Rightarrow> intent_request \<Rightarrow> 'c \<Rightarrow> intent_request \<times> (py_error + response)" where
  "lambda_handler P event context = dispatch P event"

section \<open>A reference platform\<close>

text \<open>
  One platform, to evaluate the handler on concrete requests: decimal literals with an
  optional sign and fraction, exact quotients, rounding half to even on the exact
  value, a plain decimal \<open>repr\<close>, dates of the form year-month-day checked against
  the calendar, whole years up to a given day, and a given answer of the oracle.
\<close>

definition digit_of :: "char \<Rightarrow> nat option" where
  "digit_of c =
     (let n = (of_char c :: nat) in if 48 \<le> n \<and> n \<le> 57 then Some (n - 48) else None)"

fun digits_acc :: "nat \<Rightarrow> string \<Rightarrow> nat option" where
  "digits_acc acc [] = Some acc"
| "digits_acc acc (c # cs) =
     (case digit_of c of None \<Rightarrow> None | Some d \<Rightarrow> digits_acc (10 * acc + d) cs)"

definition nat_of_digits :: "string \<Rightarrow> nat option" where
  "nat_of_digits s = (if s = [] then None else digits_acc 0 s)"

definition unsigned_decimal :: "string \<Rightarrow> real option" where
  "unsigned_decimal s =
     (let ip = takeWhile (\<lambda>c. c \<noteq> CHR ''.'') s;
          rest = dropWhile (\<lambda>c. c \<noteq> CHR ''.'') s
      in case rest of
           [] \<Rightarrow> map_option real (nat_of_digits ip)
         | _ # fp \<Rightarrow>
             (case (nat_of_digits ip, nat_of_digits fp) of
                (Some i, Some f) \<Rightarrow> Some (real i + real f / 10 ^ length fp)
              | _ \<Rightarrow> None))"

definition signed_zero :: "bool \<Rightarrow> pyfloat" where
  "signed_zero neg = (if neg then NegZero else Finite 0)"

definition signed_inf :: "bool \<Rightarrow> pyfloat" where
  "signed_inf neg = (if neg then NegInf else PosInf)"

definition signed_float :: "bool \<Rightarrow> real \<Rightarrow> pyfloat" where
  "signed_float neg x =
     (if x = 0 then signed_zero neg else if neg then Finite (- x) else Finite x)"

fun ref_float_of_str :: "string \<Rightarrow> pyfloat option" where
  "ref_float_of_str [] = None"
| "ref_float_of_str (c # cs) =
     (if c = CHR ''-'' then map_option (signed_float True) (unsigned_decimal cs)
      else if c = CHR ''+'' then map_option (signed_float False) (unsigned_decimal cs)
      else map_option (signed_float False) (unsigned_decimal (c # cs)))"

fun float_is_neg :: "pyfloat \<Rightarrow> bool" where
  "float_is_neg NegInf = True"
| "float_is_neg NegZero = True"
| "float_is_neg (Finite x) = (x < 0)"
| "float_is_neg _ = False"

fun float_is_inf :: "pyfloat \<Rightarrow> bool" where
  "float_is_inf NegInf = True"
| "float_is_inf PosInf = True"
| "float_is_inf _ = False"

definition ref_div :: "pyfloat \<Rightarrow> pyfloat \<Rightarrow> pyfloat" where
  "ref_div a b =
     (let neg = (float_is_neg a \<noteq> float_is_neg b)
      in if a = NaN \<or> b = NaN then NaN
         else if float_is_inf a then (if float_is_inf b then NaN else signed_inf neg)
         else if float_is_inf b \<or> float_is_zero a then signed_zero neg
         else (case (a, b) of
                 (Finite x, Finite y) \<Rightarrow> Finite (x / y)
               | _ \<Rightarrow> NaN))"

definition round_half_even :: "real \<Rightarrow> int" where
  "round_half_even y =
     (let f = \<lfloor>y\<rfloor>; d = y - of_int f
      in if d < 1 / 2 then f
         else if 1 / 2 < d then f + 1
         else if even f then f else f + 1)"

fun ref_round :: "pyfloat \<Rightarrow> nat \<Rightarrow> pyfloat" where
  "ref_round (Finite x) n =
     (let r = round_half_even (x * 10 ^ n)
      in if r = 0 then signed_zero (x < 0) else Finite (of_int r / 10 ^ n))"
| "ref_round x n = x"

fun show_nat :: "nat \<Rightarrow> string" where
  "show_nat n =
     (if n < 10 then [char_of (48 + n)]
      else show_nat (n div 10) @ [char_of (48 + n mod 10)])"

definition show_frac4 :: "nat \<Rightarrow> string" where
  "show_frac4 k =
     (let ds = show_nat k;
          padded = replicate (4 - length ds) (CHR ''0'') @ ds;
          stripped = rev (dropWhile (\<lambda>c. c = CHR ''0'') (rev padded))
      in if stripped = [] then ''0'' else stripped)"

fun ref_str :: "pyfloat \<Rightarrow> string" where
  "ref_str NaN = ''nan''"
| "ref_str NegInf = ''-inf''"
| "ref_str PosInf = ''inf''"
| "ref_str NegZero = ''-0.0''"
| "ref_str (Finite x) =
     (let k = nat \<lfloor>\<bar>x\<bar> * 10 ^ 4\<rfloor>
      in (if x < 0 then ''-'' else '''') @
         show_nat (k div 10 ^ 4) @ ''.'' @ show_frac4 (k mod 10 ^ 4))"

definition leap :: "nat \<Rightarrow> bool" where
  "leap y =
     (if y mod 400 = 0 then True else if y mod 100 = 0 then False else y mod 4 = 0)"

definition days_in_month :: "nat \<Rightarrow> nat \<Rightarrow> nat" where
  "days_in_month y m =
     (if m = 2 then (if leap y then 29 else 28)
      else if m = 4 \<or> m = 6 \<or> m = 9 \<or> m = 11 then 30 else 31)"

definition ref_strptime :: "string \<Rightarrow> date option" where
  "ref_strptime s =
     (let ys = takeWhile (\<lambda>c. c \<noteq> CHR ''-'') s;
          r1 = drop 1 (dropWhile (\<lambda>c. c \<noteq> CHR ''-'') s);
          ms = takeWhile (\<lambda>c. c \<noteq> CHR ''-'') r1;
          ds = drop 1 (dropWhile (\<lambda>c. c \<noteq> CHR ''-'') r1)
      in case (nat_of_digits ys, nat_of_digits ms, nat_of_digits ds) of
           (Some y, Some m, Some d) \<Rightarrow>
             if length ys = 4 \<and> length ms \<le> 2 \<and> length ds \<le> 2 \<and>
                1 \<le> y \<and> 1 \<le> m \<and> m \<le> 12 \<and> 1 \<le> d \<and> d \<le> days_in_month y m
             then Some (y, m, d) else None
         | _ \<Rightarrow> None)"

definition date_le :: "date \<Rightarrow> date \<Rightarrow> bool" where
  "date_le a b =
     (case (a, b) of
        ((y1, m1, d1), (y2, m2, d2)) \<Rightarrow>
          y1 < y2 \<or> (y1 = y2 \<and> (m1 < m2 \<or> (m1 = m2 \<and> d1 \<le> d2))))"

definition add_months :: "date \<Rightarrow> int \<Rightarrow> date" where
  "add_months b k =
     (case b of
        (y, m, d) \<Rightarrow>
          (let t = int y * 12 + (int m - 1) + k;
               y' = nat (t div 12);
               m' = nat (t mod 12) + 1
           in (y', m', min d (days_in_month y' m'))))"

text \<open>The years of \<^verbatim>\<open>relativedelta(now, birth)\<close>, for a clock that reads a time after
  midnight on the day \<open>now\<close>: whole months from the birth date, cut to years towards
  zero.\<close>

definition ref_age :: "date \<Rightarrow> date \<Rightarrow> int" where
  "ref_age now birth =
     (case (now, birth) of
        ((ny, nm, nd), (y, m, d)) \<Rightarrow>
          (let m0 = (int ny - int y) * 12 + (int nm - int m)
           in if date_le birth now
              then (if date_le (add_months birth m0) now then m0 else m0 - 1) div 12
              else - ((- (if date_le (add_months birth m0) now then m0 + 1 else m0)) div 12)))"

definition ref_platform :: "date \<Rightarrow> (py_error + pyval) \<Rightarrow> platform" where
  "ref_platform now price =
     \<lparr>float_of_str = ref_float_of_str,
      float_div = ref_div,
      float_round = ref_round,
      float_str = ref_str,
      strptime_ymd = ref_strptime,
      age_years = ref_age now,
      price_field = price\<rparr>"

section \<open>Conditions on the slot values, and example requests\<close>

text \<open>The birth date is absent, or it parses and the age is at least 18.\<close>

definition adult_or_absent :: "platform \<Rightarrow> string option \<Rightarrow> bool" where
  "adult_or_absent P birthday =
     (case birthday of
        None \<Rightarrow> True
      | Some b \<Rightarrow>
          (case strptime_ymd P b of None \<Rightarrow> False | Some d \<Rightarrow> 18 \<le> age_years P d))"

text \<open>The amount is absent, or it parses to a float greater than zero.\<close>

definition positive_or_absent :: "platform \<Rightarrow> string option \<Rightarrow> bool" where
  "positive_or_absent P cad_amount =
     (case cad_amount of
        None \<Rightarrow> True
      | Some s \<Rightarrow>
          (case float_of_str P s of None \<Rightarrow> False | Some x \<Rightarrow> float_gt_zero x))"

text \<open>The reference platform on 4 November 2026, with an oracle that answers 50000.0.\<close>

definition example_platform :: platform where
  "example_platform = ref_platform (2026, 11, 4) (Inr (PyFloat (Finite 50000)))"

text \<open>A request for the supported intent with the two slots of the intent and no session
  attributes.\<close>

definition example_request ::
  "string \<Rightarrow> string option \<Rightarrow> string option \<Rightarrow> intent_request" where
  "example_request source birthday cad_amount =
     \<lparr>currentIntent_name = ''convertCAD'',
      currentIntent_slots = [''birthday'' \<mapsto> birthday, ''cadAmount'' \<mapsto> cad_amount],
      invocationSource = source,
      sessionAttributes = Map.empty\<rparr>"

section \<open>Auxiliary facts\<close>

lemma parse_float_str:
  "parse_float P (PyStr s) = Inr (case float_of_str P s of None \<Rightarrow> NaN | Some x \<Rightarrow> x)"
  by (simp add: parse_float_def split: option.splits)

lemma float_gt_not_le: "float_gt_zero x \<Longrightarrow> \<not> float_le_zero x"
  by (cases x) auto

lemma validate_data_invalid:
  assumes "validate_data P birthday cad_amount r = Inr v" and "\<not> isValid v"
  shows "violatedSlot v \<noteq> None \<and> message v \<noteq> None"
  using assms
  by (auto simp: validate_data_def build_validation_result_def parse_float_str Let_def
      split: option.splits if_splits)

lemma ex_source: "invocationSource (example_request source birthday cad_amount) = source"
  by (simp add: example_request_def)

lemma ex_slot_birthday:
  "currentIntent_slots (example_request source birthday cad_amount) ''birthday'' = Some birthday"
  by (simp add: example_request_def)

lemma ex_slot_amount:
  "currentIntent_slots (example_request source birthday cad_amount) ''cadAmount'' =
     Some cad_amount"
  by (simp add: example_request_def)

lemma ex_name: "currentIntent_name (example_request source birthday cad_amount) = ''convertCAD''"
  by (simp add: example_request_def)

lemma ex_abc: "float_of_str example_platform ''abc'' = None"
  by code_simp

lemma ex_abs: "adult_or_absent example_platform None"
  by (simp add: adult_or_absent_def)

lemma ex_birth_2015: "strptime_ymd example_platform ''2015-06-15'' = Some (2015, 6, 15)"
  by code_simp

lemma ex_age_2015: "age_years example_platform (2015, 6, 15) < 18"
  by code_simp

lemma ex_adult_1990: "adult_or_absent example_platform (Some ''1990-01-01'')"
  by code_simp

lemma ex_positive_1000: "positive_or_absent example_platform (Some ''1000'')"
  by code_simp

lemma ex_validate_zero:
  "validate_data example_platform (Some ''1990-01-01'') (Some ''0'')
     (example_request ''DialogCodeHook'' (Some ''1990-01-01'') (Some ''0'')) =
   Inr \<lparr>isValid = False, violatedSlot = Some ''cadAmount'',
        message = Some \<lparr>contentType = ''PlainText'', content = amount_message\<rparr>\<rparr>"
  by code_simp

lemma ex_validate_ok:
  "validate_data example_platform (Some ''1990-01-01'') (Some ''1000'')
     (example_request ''DialogCodeHook'' (Some ''1990-01-01'') (Some ''1000'')) =
   Inr \<lparr>isValid = True, violatedSlot = None, message = None\<rparr>"
  by code_simp

lemma ex_price: "get_btcprice example_platform = Inr (Finite 50000)"
  by (simp add: get_btcprice_def parse_float_def example_platform_def ref_platform_def)

lemma ex_price_nonzero: "\<not> float_is_zero (Finite 50000)"
  by simp

lemma ex_btc_text:
  "float_str example_platform
     (float_round example_platform
        (float_div example_platform
           (case float_of_str example_platform ''1000'' of None \<Rightarrow> NaN | Some x \<Rightarrow> x)
           (Finite 50000)) 4) = ''0.02''"
  by code_simp

lemma ex_yesterday: "strptime_ymd example_platform ''yesterday'' = None"
  by code_simp

section \<open>The claims\<close>

text \<open>
  Claim C1, as the code has it. An amount string that \<^verbatim>\<open>float\<close> rejects becomes a
  not-a-number in \<^verbatim>\<open>parse_float\<close> and no exception is raised; but \<^verbatim>\<open>nan <= 0\<close> is
  false, so with a birth date that is absent or of an adult \<^verbatim>\<open>validate_data\<close> returns
  the valid result, with no violated slot, and not the amount slot as violated.
\<close>

theorem nonnumeric_amount_is_accepted:
  assumes "float_of_str P s = None" and "adult_or_absent P birthday"
  shows "parse_float P (PyStr s) = Inr NaN \<and>
         validate_data P birthday (Some s) r =
           Inr \<lparr>isValid = True, violatedSlot = None, message = None\<rparr>"
  using assms
  by (auto simp: validate_data_def build_validation_result_def parse_float_str Let_def
      adult_or_absent_def split: option.splits)

text \<open>The theorem above at a concrete request.\<close>

theorem nonnumeric_amount_is_accepted_witness:
  "float_of_str example_platform ''abc'' = None \<and>
   adult_or_absent example_platform None \<and>
   validate_data example_platform None (Some ''abc'')
     (example_request ''DialogCodeHook'' None (Some ''abc'')) =
     Inr \<lparr>isValid = True, violatedSlot = None, message = None\<rparr>"
  using nonnumeric_amount_is_accepted [OF ex_abc ex_abs] ex_abc ex_abs by simp

text \<open>
  Claim C2, amended. For a request whose invocation source is not
  \<^verbatim>\<open>DialogCodeHook\<close>, whose slot mapping has both slots with the amount present, and a
  price of the oracle that is not zero, \<^verbatim>\<open>convert_cad\<close> leaves the request as it is and
  returns a \<^verbatim>\<open>Close\<close> response, fulfilment state \<^verbatim>\<open>Fulfilled\<close>, whose message holds the
  parsed amount divided by the price, rounded to 4 decimal places, and the amount
  string as it came.
\<close>

theorem fulfilment_close:
  assumes "invocationSource r \<noteq> ''DialogCodeHook''"
    and "currentIntent_slots r ''birthday'' = Some birthday"
    and "currentIntent_slots r ''cadAmount'' = Some (Some s)"
    and "get_btcprice P = Inr price"
    and "\<not> float_is_zero price"
  shows "convert_cad P r =
           (r, Inr \<lparr>resp_sessionAttributes = sessionAttributes r,
                    dialogAction =
                      Close ''Fulfilled''
                        \<lparr>contentType = ''PlainText'',
                         content =
                           fulfilled_text
                             (float_str P
                                (float_round P
                                   (float_div P
                                      (case float_of_str P s of None \<Rightarrow> NaN | Some x \<Rightarrow> x)
                                      price) 4))
                             s\<rparr>\<rparr>)"
  using assms
  by (simp add: convert_cad_def py_getitem_def get_slots_def close_def parse_float_str
      py_truediv_def Let_def)

text \<open>The theorem above at a concrete request.\<close>

theorem fulfilment_close_witness:
  "invocationSource (example_request ''FulfillmentCodeHook'' (Some ''1990-01-01'') (Some ''1000''))
     \<noteq> ''DialogCodeHook'' \<and>
   get_btcprice example_platform = Inr (Finite 50000) \<and>
   \<not> float_is_zero (Finite 50000) \<and>
   snd (convert_cad example_platform
          (example_request ''FulfillmentCodeHook'' (Some ''1990-01-01'') (Some ''1000''))) =
     Inr \<lparr>resp_sessionAttributes = Map.empty,
          dialogAction =
            Close ''Fulfilled''
              \<lparr>contentType = ''PlainText'', content = fulfilled_text ''0.02'' ''1000''\<rparr>\<rparr>"
proof -
  let ?r = "example_request ''FulfillmentCodeHook'' (Some ''1990-01-01'') (Some ''1000'')"
  have h1: "invocationSource ?r \<noteq> ''DialogCodeHook''"
    by (simp add: ex_source)
  have sa: "sessionAttributes ?r = Map.empty"
    by (simp add: example_request_def)
  from fulfilment_close [OF h1 ex_slot_birthday ex_slot_amount ex_price ex_price_nonzero]
  have "snd (convert_cad example_platform ?r) =
     Inr \<lparr>resp_sessionAttributes = Map.empty,
          dialogAction =
            Close ''Fulfilled''
              \<lparr>contentType = ''PlainText'', content = fulfilled_text ''0.02'' ''1000''\<rparr>\<rparr>"
    by (simp only: ex_btc_text sa snd_conv)
  with h1 ex_price ex_price_nonzero show ?thesis by blast
qed

text \<open>
  Claim C2 as stated fails when the amount slot is absent: \<^verbatim>\<open>float(None)\<close> raises
  \<^verbatim>\<open>TypeError\<close>, which \<^verbatim>\<open>parse_float\<close> does not catch, and no response is returned.
\<close>

theorem fulfilment_without_amount_raises:
  "invocationSource (example_request ''FulfillmentCodeHook'' (Some ''1990-01-01'') None) \<noteq>
     ''DialogCodeHook'' \<and>
   snd (convert_cad example_platform
          (example_request ''FulfillmentCodeHook'' (Some ''1990-01-01'') None)) =
     Inl TypeError"
  by (simp add: convert_cad_def py_getitem_def get_slots_def parse_float_def ex_source
      ex_slot_birthday ex_slot_amount)

text \<open>
  Claim C3. In the validation phase (\<^verbatim>\<open>DialogCodeHook\<close>), when the validation of the
  two slot values returns an invalid result, \<^verbatim>\<open>convert_cad\<close> returns an
  \<^verbatim>\<open>ElicitSlot\<close> response whose slot to elicit is the violated slot of that result,
  whose message is the validation message, and whose slot mapping is the request's
  with the violated slot set to \<^verbatim>\<open>None\<close>.
\<close>

theorem invalid_slot_elicit:
  assumes "invocationSource r = ''DialogCodeHook''"
    and "currentIntent_slots r ''birthday'' = Some birthday"
    and "currentIntent_slots r ''cadAmount'' = Some cad_amount"
    and "validate_data P birthday cad_amount r = Inr v"
    and "\<not> isValid v"
  shows "\<exists>violated msg.
           violatedSlot v = Some violated \<and> message v = Some msg \<and>
           snd (convert_cad P r) =
             Inr \<lparr>resp_sessionAttributes = sessionAttributes r,
                  dialogAction =
                    ElicitSlot (currentIntent_name r)
                      ((currentIntent_slots r)(violated \<mapsto> None)) violated msg\<rparr>"
proof -
  from validate_data_invalid [OF assms(4,5)]
  obtain violated msg where vm: "violatedSlot v = Some violated" "message v = Some msg"
    by auto
  with assms have "snd (convert_cad P r) =
             Inr \<lparr>resp_sessionAttributes = sessionAttributes r,
                  dialogAction =
                    ElicitSlot (currentIntent_name r)
                      ((currentIntent_slots r)(violated \<mapsto> None)) violated msg\<rparr>"
    by (simp add: convert_cad_def py_getitem_def get_slots_def elicit_slot_def Let_def)
  with vm show ?thesis by blast
qed

text \<open>The theorem above at a concrete request.\<close>

theorem invalid_slot_elicit_witness:
  "invocationSource (example_request ''DialogCodeHook'' (Some ''1990-01-01'') (Some ''0'')) =
     ''DialogCodeHook'' \<and>
   validate_data example_platform (Some ''1990-01-01'') (Some ''0'')
     (example_request ''DialogCodeHook'' (Some ''1990-01-01'') (Some ''0'')) =
     Inr \<lparr>isValid = False, violatedSlot = Some ''cadAmount'',
          message = Some \<lparr>contentType = ''PlainText'', content = amount_message\<rparr>\<rparr> \<and>
   snd (convert_cad example_platform
          (example_request ''DialogCodeHook'' (Some ''1990-01-01'') (Some ''0''))) =
     Inr \<lparr>resp_sessionAttributes = Map.empty,
          dialogAction =
            ElicitSlot ''convertCAD''
              [''birthday'' \<mapsto> Some ''1990-01-01'', ''cadAmount'' \<mapsto> None]
              ''cadAmount''
              \<lparr>contentType = ''PlainText'', content = amount_message\<rparr>\<rparr>"
proof -
  let ?r = "example_request ''DialogCodeHook'' (Some ''1990-01-01'') (Some ''0'')"
  let ?v = "\<lparr>isValid = False, violatedSlot = Some ''cadAmount'',
          message = Some \<lparr>contentType = ''PlainText'', content = amount_message\<rparr>\<rparr>"
  have nv: "\<not> isValid ?v" by simp
  have sl: "(currentIntent_slots ?r)(''cadAmount'' \<mapsto> None) =
            [''birthday'' \<mapsto> Some ''1990-01-01'', ''cadAmount'' \<mapsto> None]"
    by (simp add: example_request_def)
  have sa: "sessionAttributes ?r = Map.empty"
    by (simp add: example_request_def)
  from invalid_slot_elicit [OF ex_source ex_slot_birthday ex_slot_amount ex_validate_zero nv]
  have "snd (convert_cad example_platform ?r) =
     Inr \<lparr>resp_sessionAttributes = Map.empty,
          dialogAction =
            ElicitSlot ''convertCAD''
              [''birthday'' \<mapsto> Some ''1990-01-01'', ''cadAmount'' \<mapsto> None]
              ''cadAmount''
              \<lparr>contentType = ''PlainText'', content = amount_message\<rparr>\<rparr>"
    by (auto simp: sl sa ex_name)
  with ex_source ex_validate_zero show ?thesis by blast
qed

text \<open>
  Claim C4. A birth date that parses to an age below 18 makes \<^verbatim>\<open>validate_data\<close>
  return the invalid result that names the birthday slot, whatever the amount is: the
  amount is not looked at, and one slot only is reported.
\<close>

theorem underage_birthday_is_violated:
  assumes "strptime_ymd P b = Some d" and "age_years P d < 18"
  shows "validate_data P (Some b) cad_amount r =
           Inr \<lparr>isValid = False, violatedSlot = Some ''birthday'',
                message = Some \<lparr>contentType = ''PlainText'', content = age_message\<rparr>\<rparr>"
  using assms by (simp add: validate_data_def build_validation_result_def Let_def)

text \<open>The theorem above at a concrete request.\<close>

theorem underage_birthday_is_violated_witness:
  "strptime_ymd example_platform ''2015-06-15'' = Some (2015, 6, 15) \<and>
   age_years example_platform (2015, 6, 15) < 18 \<and>
   validate_data example_platform (Some ''2015-06-15'') (Some ''1000'')
     (example_request ''DialogCodeHook'' (Some ''2015-06-15'') (Some ''1000'')) =
     Inr \<lparr>isValid = False, violatedSlot = Some ''birthday'',
          message = Some \<lparr>contentType = ''PlainText'', content = age_message\<rparr>\<rparr>"
  using underage_birthday_is_violated [OF ex_birth_2015 ex_age_2015] ex_birth_2015 ex_age_2015
  by simp

text \<open>
  Claim C5. When the birth date is absent or gives an age of at least 18, and the
  amount is absent or parses to a value greater than zero, \<^verbatim>\<open>validate_data\<close> returns
  the valid result, with no violated slot and no message.
\<close>

theorem adult_positive_is_valid:
  assumes "adult_or_absent P birthday" and "positive_or_absent P cad_amount"
  shows "validate_data P birthday cad_amount r =
           Inr \<lparr>isValid = True, violatedSlot = None, message = None\<rparr>"
  using assms
  by (auto simp: validate_data_def build_validation_result_def parse_float_str Let_def
      adult_or_absent_def positive_or_absent_def float_gt_not_le split: option.splits)

text \<open>The theorem above at a concrete request.\<close>

theorem adult_positive_is_valid_witness:
  "adult_or_absent example_platform (Some ''1990-01-01'') \<and>
   positive_or_absent example_platform (Some ''1000'') \<and>
   validate_data example_platform (Some ''1990-01-01'') (Some ''1000'')
     (example_request ''DialogCodeHook'' (Some ''1990-01-01'') (Some ''1000'')) =
     Inr \<lparr>isValid = True, violatedSlot = None, message = None\<rparr>"
  using adult_positive_is_valid [OF ex_adult_1990 ex_positive_1000] ex_adult_1990
    ex_positive_1000
  by simp

text \<open>
  Claim C6. In the validation phase, when the validation of the two slot values
  returns a valid result, \<^verbatim>\<open>convert_cad\<close> leaves the request as it is and returns a
  \<^verbatim>\<open>Delegate\<close> response that carries the request's slot mapping and its session
  attributes.
\<close>

theorem valid_slots_delegate:
  assumes "invocationSource r = ''DialogCodeHook''"
    and "currentIntent_slots r ''birthday'' = Some birthday"
    and "currentIntent_slots r ''cadAmount'' = Some cad_amount"
    and "validate_data P birthday cad_amount r = Inr v"
    and "isValid v"
  shows "convert_cad P r =
           (r, Inr \<lparr>resp_sessionAttributes = sessionAttributes r,
                    dialogAction = Delegate (currentIntent_slots r)\<rparr>)"
  using assms
  by (simp add: convert_cad_def py_getitem_def get_slots_def delegate_def)

text \<open>The theorem above at a concrete request.\<close>

theorem valid_slots_delegate_witness:
  "invocationSource (example_request ''DialogCodeHook'' (Some ''1990-01-01'') (Some ''1000'')) =
     ''DialogCodeHook'' \<and>
   validate_data example_platform (Some ''1990-01-01'') (Some ''1000'')
     (example_request ''DialogCodeHook'' (Some ''1990-01-01'') (Some ''1000'')) =
     Inr \<lparr>isValid = True, violatedSlot = None, message = None\<rparr> \<and>
   convert_cad example_platform
     (example_request ''DialogCodeHook'' (Some ''1990-01-01'') (Some ''1000'')) =
     (example_request ''DialogCodeHook'' (Some ''1990-01-01'') (Some ''1000''),
      Inr \<lparr>resp_sessionAttributes =
             sessionAttributes
               (example_request ''DialogCodeHook'' (Some ''1990-01-01'') (Some ''1000'')),
           dialogAction =
             Delegate
               (currentIntent_slots
                  (example_request ''DialogCodeHook'' (Some ''1990-01-01'') (Some ''1000'')))\<rparr>)"
proof -
  let ?v = "\<lparr>isValid = True, violatedSlot = None, message = None\<rparr>"
  have ok: "isValid ?v" by simp
  from valid_slots_delegate [OF ex_source ex_slot_birthday ex_slot_amount ex_validate_ok ok]
    ex_source ex_validate_ok
  show ?thesis by blast
qed

text \<open>
  Claim C7. For an intent name other than \<^verbatim>\<open>convertCAD\<close>, \<^verbatim>\<open>dispatch\<close> raises an
  exception whose text names the intent, and returns no response.
\<close>

theorem unsupported_intent_raises:
  assumes "currentIntent_name r \<noteq> ''convertCAD''"
  shows "dispatch P r =
           (r, Inl (Exception (''Intent with name '' @ currentIntent_name r @ '' not supported'')))"
  using assms by (simp add: dispatch_def Let_def)

text \<open>The theorem above at a concrete request.\<close>

theorem unsupported_intent_raises_witness:
  "currentIntent_name
     ((example_request ''DialogCodeHook'' None None)\<lparr>currentIntent_name := ''orderPizza''\<rparr>) \<noteq>
     ''convertCAD'' \<and>
   snd (dispatch example_platform
          ((example_request ''DialogCodeHook'' None None)\<lparr>currentIntent_name := ''orderPizza''\<rparr>)) =
     Inl (Exception ''Intent with name orderPizza not supported'')"
proof -
  let ?r = "(example_request ''DialogCodeHook'' None None)\<lparr>currentIntent_name := ''orderPizza''\<rparr>"
  have h: "currentIntent_name ?r \<noteq> ''convertCAD''" by simp
  from unsupported_intent_raises [OF h, of example_platform]
  have "snd (dispatch example_platform ?r) =
     Inl (Exception ''Intent with name orderPizza not supported'')"
    by simp
  with h show ?thesis by blast
qed

text \<open>
  Claim C8. Every validation result that \<^verbatim>\<open>validate_data\<close> builds has its violated
  slot and its message both present or both absent, and both absent exactly when the
  result is valid.
\<close>

theorem validation_result_invariant:
  assumes "validate_data P birthday cad_amount r = Inr v"
  shows "(violatedSlot v = None \<longleftrightarrow> message v = None) \<and>
         (violatedSlot v = None \<and> message v = None \<longleftrightarrow> isValid v)"
  using assms
  by (auto simp: validate_data_def build_validation_result_def parse_float_str Let_def
      split: option.splits if_splits)

text \<open>The theorem above at a concrete request.\<close>

theorem validation_result_invariant_witness:
  "validate_data example_platform (Some ''1990-01-01'') (Some ''0'')
     (example_request ''DialogCodeHook'' (Some ''1990-01-01'') (Some ''0'')) =
     Inr \<lparr>isValid = False, violatedSlot = Some ''cadAmount'',
          message = Some \<lparr>contentType = ''PlainText'', content = amount_message\<rparr>\<rparr> \<and>
   violatedSlot \<lparr>isValid = False, violatedSlot = Some ''cadAmount'',
          message = Some \<lparr>contentType = ''PlainText'', content = amount_message\<rparr>\<rparr> \<noteq> None \<and>
   message \<lparr>isValid = False, violatedSlot = Some ''cadAmount'',
          message = Some \<lparr>contentType = ''PlainText'', content = amount_message\<rparr>\<rparr> \<noteq> None \<and>
   \<not> isValid \<lparr>isValid = False, violatedSlot = Some ''cadAmount'',
          message = Some \<lparr>contentType = ''PlainText'', content = amount_message\<rparr>\<rparr>"
  using validation_result_invariant [OF ex_validate_zero] ex_validate_zero by simp

text \<open>
  Claim C9, amended. \<^verbatim>\<open>dispatch\<close> leaves the request as it came on every outcome but
  one: when it returns an \<^verbatim>\<open>ElicitSlot\<close> response, the request's own slot mapping has
  the violated slot set to \<^verbatim>\<open>None\<close>, and it is the mapping the response carries. The
  intent name, the invocation source and the session attributes never change.
\<close>

theorem request_changes_only_when_eliciting:
  "(case snd (dispatch P r) of
      Inl e \<Rightarrow> fst (dispatch P r) = r
    | Inr resp \<Rightarrow>
        (case dialogAction resp of
           ElicitSlot n sl violated msg \<Rightarrow>
             fst (dispatch P r) =
               r\<lparr>currentIntent_slots := (currentIntent_slots r)(violated \<mapsto> None)\<rparr> \<and>
             sl = currentIntent_slots (fst (dispatch P r))
         | Delegate sl \<Rightarrow> fst (dispatch P r) = r
         | Close st msg \<Rightarrow> fst (dispatch P r) = r))"
proof (cases "currentIntent_name r = ''convertCAD''")
  case False
  then show ?thesis by (simp add: dispatch_def Let_def)
next
  case True
  then have d: "dispatch P r = convert_cad P r" by (simp add: dispatch_def Let_def)
  show ?thesis
    unfolding d
    by (auto simp: convert_cad_def py_getitem_def get_slots_def elicit_slot_def delegate_def
        close_def Let_def dest: validate_data_invalid split: option.splits sum.splits)
qed

text \<open>
  Claim C9 as stated fails in the validation phase with an amount of zero: the
  amount slot of the request holds \<^verbatim>\<open>"0"\<close> before the call and \<^verbatim>\<open>None\<close> after it.
\<close>

theorem dispatch_clears_request_slot:
  "currentIntent_slots (example_request ''DialogCodeHook'' (Some ''1990-01-01'') (Some ''0''))
     ''cadAmount'' = Some (Some ''0'') \<and>
   currentIntent_slots
     (fst (dispatch example_platform
             (example_request ''DialogCodeHook'' (Some ''1990-01-01'') (Some ''0''))))
     ''cadAmount'' = Some None \<and>
   currentIntent_slots
     (fst (dispatch example_platform
             (example_request ''DialogCodeHook'' (Some ''1990-01-01'') (Some ''0'')))) \<noteq>
   currentIntent_slots (example_request ''DialogCodeHook'' (Some ''1990-01-01'') (Some ''0''))"
proof -
  let ?r = "example_request ''DialogCodeHook'' (Some ''1990-01-01'') (Some ''0'')"
  have a: "currentIntent_slots ?r ''cadAmount'' = Some (Some ''0'')"
    by (rule ex_slot_amount)
  have b: "currentIntent_slots (fst (dispatch example_platform ?r)) ''cadAmount'' = Some None"
    by (simp add: dispatch_def convert_cad_def py_getitem_def get_slots_def ex_name ex_source
        ex_slot_birthday ex_slot_amount ex_validate_zero Let_def)
  from a b have "currentIntent_slots (fst (dispatch example_platform ?r)) \<noteq>
                 currentIntent_slots ?r"
    by auto
  with a b show ?thesis by blast
qed

text \<open>
  Claim C10. A birth date that \<^verbatim>\<open>strptime\<close> rejects makes \<^verbatim>\<open>validate_data\<close> end with
  the \<^verbatim>\<open>ValueError\<close> of \<^verbatim>\<open>strptime\<close>, whatever the amount is: no validation result is
  returned.
\<close>

theorem malformed_birthday_raises:
  assumes "strptime_ymd P b = None"
  shows "validate_data P (Some b) cad_amount r = Inl ValueError"
  using assms by (simp add: validate_data_def Let_def)

text \<open>The theorem above at a concrete request.\<close>

theorem malformed_birthday_raises_witness:
  "strptime_ymd example_platform ''yesterday'' = None \<and>
   validate_data example_platform (Some ''yesterday'') (Some ''1000'')
     (example_request ''DialogCodeHook'' (Some ''yesterday'') (Some ''1000'')) =
     Inl ValueError"
  using malformed_birthday_raises [OF ex_yesterday] ex_yesterday by simp

end
